theory Spec2Isabelle
  imports Main "HOL-Library.Sublist"
begin

section \<open>JavaScript primitives used by the wizard\<close>

text \<open>
  Strings are byte lists: the UTF-8 text that \<^verbatim>\<open>fs.writeFile\<close> puts on disk.
  Every search pattern in the source is ASCII, and an ASCII byte never occurs inside a
  multi-byte UTF-8 sequence, so substring tests on bytes agree with the tests on
  JavaScript's UTF-16 strings.
\<close>

text \<open>\<^verbatim>\<open>String.prototype.includes\<close>: the argument occurs as a contiguous substring.\<close>

definition str_includes :: "string \<Rightarrow> string \<Rightarrow> bool" where
  "str_includes s t = sublist t s"

text \<open>\<^verbatim>\<open>Array.prototype.includes\<close> on an array of strings.\<close>

definition arr_includes :: "string list \<Rightarrow> string \<Rightarrow> bool" where
  "arr_includes xs x = (x \<in> set xs)"

text \<open>\<^verbatim>\<open>Array.prototype.join\<close>.\<close>

fun js_join :: "string \<Rightarrow> string list \<Rightarrow> string" where
  "js_join sep [] = []"
| "js_join sep [x] = x"
| "js_join sep (x # y # ys) = x @ sep @ js_join sep (y # ys)"

text \<open>
  \<^verbatim>\<open>a || b\<close> on strings: the empty string is falsy, and so is \<^verbatim>\<open>undefined\<close>
  (\<open>None\<close>).
\<close>

definition or_str :: "string \<Rightarrow> string \<Rightarrow> string" where
  "or_str a b = (if a = [] then b else a)"

definition or_opt :: "string option \<Rightarrow> string \<Rightarrow> string" where
  "or_opt a b = (case a of None \<Rightarrow> b | Some s \<Rightarrow> or_str s b)"

text \<open>
  A JavaScript object with string keys is an association list in insertion order, which
  is the order of \<^verbatim>\<open>Object.keys\<close> and \<^verbatim>\<open>Object.entries\<close> for keys that are not
  array indices. Assigning a property replaces the value of an existing key in place and
  appends a new key at the end.
\<close>

fun obj_set :: "(string \<times> 'v) list \<Rightarrow> string \<Rightarrow> 'v \<Rightarrow> (string \<times> 'v) list" where
  "obj_set [] k v = [(k, v)]"
| "obj_set ((k', v') # kvs) k v =
     (if k' = k then (k, v) # kvs else (k', v') # obj_set kvs k v)"

definition obj_keys :: "(string \<times> 'v) list \<Rightarrow> string list" where
  "obj_keys kvs = map fst kvs"

definition obj_get :: "(string \<times> 'v) list \<Rightarrow> string \<Rightarrow> 'v option" where
  "obj_get kvs k = map_of kvs k"

text \<open>Values of object literals that are handed to a serializer as they are.\<close>

datatype jsval =
    JNull
  | JBool bool
  | JNum int
  | JStr string
  | JArr "jsval list"
  | JObj "(string \<times> jsval) list"

datatype error = TemplateNotFound | TypeError

section \<open>Data model\<close>

record integration =
  provider :: "string option"
  platforms :: "string list option"
  features :: "string list"

record automation =
  auto_schedule :: string
  auto_description :: "string option"
  auto_priority :: "string option"
  auto_includes :: "string list option"

record scenario =
  scen_name :: string
  scen_description :: string
  scen_time_saved :: string

record impact_metrics =
  daily_time_saved :: string
  weekly_time_saved :: string
  monthly_time_saved :: string
  primary_benefits :: "string list option"

record skill_spec =
  skill_enabled :: "bool option"
  skill_description :: "string option"
  skill_extra :: "(string \<times> jsval) list"

text \<open>
  \<^verbatim>\<open>template.skills\<close> comes in two shapes: an array of skill names, or an object
  \<^verbatim>\<open>{entries: {name: spec, ...}}\<close>.
\<close>

datatype skills =
    SkillsArray "string list"
  | SkillsEntries "(string \<times> skill_spec) list"

record template =
  tmpl_name :: string
  tmpl_description :: string
  tmpl_automations :: "(string \<times> automation) list option"
  tmpl_skills :: skills
  tmpl_demo_scenarios :: "scenario list option"
  tmpl_impact_metrics :: "impact_metrics option"
  tmpl_workflows :: "jsval list option"

record answers =
  ans_userType :: string
  ans_goals :: "string list option"
  ans_experience :: string
  ans_tools :: "string list"

record user =
  user_type :: string
  user_goals :: "string list option"
  user_experience :: string

record workspace =
  ws_name :: string
  ws_description :: string
  ws_automations :: "(string \<times> automation) list option"
  ws_skills :: skills

record config =
  cfg_user :: user
  cfg_template :: template
  cfg_integrations :: "(string \<times> integration) list"
  cfg_workspace :: workspace
  cfg_created :: string

section \<open>wizard.js: assembling the configuration\<close>

text \<open>
  \<^verbatim>\<open>configureIntegrations(selectedTools)\<close>: four independent tests on the selected
  tools, each adding one property to the object \<^verbatim>\<open>integrations\<close>.
\<close>

definition configureIntegrations :: "string list \<Rightarrow> (string \<times> integration) list" where
  "configureIntegrations selectedTools =
    (let integrations = [];
         integrations =
           (if arr_includes selectedTools ''gmail''
            then obj_set integrations ''email''
                   \<lparr>provider = Some ''gmail'', platforms = None,
                    features = [''automation'', ''smart_inbox'', ''scheduling'']\<rparr>
            else integrations);
         integrations =
           (if arr_includes selectedTools ''calendar''
            then obj_set integrations ''calendar''
                   \<lparr>provider = Some ''google'', platforms = None,
                    features = [''scheduling'', ''meeting_prep'', ''availability'']\<rparr>
            else integrations);
         integrations =
           (if arr_includes selectedTools ''github''
            then obj_set integrations ''github''
                   \<lparr>provider = None, platforms = None,
                    features = [''pr_reviews'', ''issue_tracking'', ''repo_analytics'']\<rparr>
            else integrations);
         integrations =
           (if arr_includes selectedTools ''social''
            then obj_set integrations ''social''
                   \<lparr>provider = None, platforms = Some [''linkedin'', ''twitter''],
                    features = [''content_scheduling'', ''analytics'', ''engagement'']\<rparr>
            else integrations)
     in integrations)"

text \<open>
  \<^verbatim>\<open>generateConfiguration(answers, template, integrations)\<close>. The clock reading
  \<^verbatim>\<open>new Date().toISOString()\<close> is the parameter \<open>now_iso\<close>. The template's skills
  are copied as they are.
\<close>

definition generateConfiguration ::
  "answers \<Rightarrow> template \<Rightarrow> (string \<times> integration) list \<Rightarrow> string \<Rightarrow> config" where
  "generateConfiguration answers template integrations now_iso =
    \<lparr>cfg_user = \<lparr>user_type = ans_userType answers, user_goals = ans_goals answers,
                  user_experience = ans_experience answers\<rparr>,
     cfg_template = template,
     cfg_integrations = integrations,
     cfg_workspace =
       \<lparr>ws_name = ans_userType answers @ ''-ai-employee'',
        ws_description = ''AI employee setup for '' @ ans_userType answers,
        ws_automations = tmpl_automations template,
        ws_skills = tmpl_skills template\<rparr>,
     cfg_created = now_iso\<rparr>"

text \<open>
  Modelled from the spec: \<^verbatim>\<open>loadTemplate\<close> lives in \<^verbatim>\<open>./templates\<close>, which is not
  among the sources. The spec describes it as a pure lookup from the role to its template
  that fails with \<^verbatim>\<open>TemplateNotFound\<close> when the catalog has no entry for the key. The
  catalog itself is the parameter \<open>catalog\<close>.
\<close>

definition loadTemplate :: "(string \<Rightarrow> template option) \<Rightarrow> string \<Rightarrow> error + template" where
  "loadTemplate catalog userType =
    (case catalog userType of None \<Rightarrow> Inl TemplateNotFound | Some t \<Rightarrow> Inr t)"

text \<open>
  Steps 3 to 5 of \<^verbatim>\<open>runWizard\<close>: load the template, expand the integrations, build the
  configuration.
\<close>

definition assemble ::
  "(string \<Rightarrow> template option) \<Rightarrow> answers \<Rightarrow> string \<Rightarrow> error + config" where
  "assemble catalog answers now_iso =
    (case loadTemplate catalog (ans_userType answers) of
       Inl e \<Rightarrow> Inl e
     | Inr selectedTemplate \<Rightarrow>
         (let integrations = configureIntegrations (ans_tools answers)
          in Inr (generateConfiguration answers selectedTemplate integrations now_iso)))"

text \<open>The identifiers that \<^verbatim>\<open>configureIntegrations\<close> tests for.\<close>

definition recognized :: "string \<Rightarrow> bool" where
  "recognized t = (t = ''gmail'' \<or> t = ''calendar'' \<or> t = ''github'' \<or> t = ''social'')"


section \<open>setup.js: text helpers\<close>

text \<open>The emoji of the headings, as the UTF-8 bytes written to the files.\<close>

definition emoji_target :: string where "emoji_target = [CHR 0xF0, CHR 0x9F, CHR 0x8E, CHR 0xAF]"
definition emoji_clipboard :: string where "emoji_clipboard = [CHR 0xF0, CHR 0x9F, CHR 0x93, CHR 0x8B]"
definition emoji_chart :: string where "emoji_chart = [CHR 0xF0, CHR 0x9F, CHR 0x93, CHR 0x8A]"
definition emoji_calendar :: string where "emoji_calendar = [CHR 0xF0, CHR 0x9F, CHR 0x93, CHR 0x85]"
definition emoji_bell :: string where "emoji_bell = [CHR 0xF0, CHR 0x9F, CHR 0x94, CHR 0x94]"
definition emoji_check :: string where "emoji_check = [CHR 0xE2, CHR 0x9C, CHR 0x85]"
definition emoji_hourglass :: string where "emoji_hourglass = [CHR 0xE2, CHR 0x8F, CHR 0xB3]"
definition emoji_bulb :: string where "emoji_bulb = [CHR 0xF0, CHR 0x9F, CHR 0x92, CHR 0xA1]"
definition emoji_zap :: string where "emoji_zap = [CHR 0xE2, CHR 0x9A, CHR 0xA1]"
definition emoji_tools :: string where
  "emoji_tools = [CHR 0xF0, CHR 0x9F, CHR 0x9B, CHR 0xA0, CHR 0xEF, CHR 0xB8, CHR 0x8F]"
definition emoji_siren :: string where "emoji_siren = [CHR 0xF0, CHR 0x9F, CHR 0x9A, CHR 0xA8]"
definition emoji_cycle :: string where "emoji_cycle = [CHR 0xF0, CHR 0x9F, CHR 0x94, CHR 0x84]"

text \<open>
  \<^verbatim>\<open>name.replace(/_/g, ' ').replace(/\b\w/g, l => l.toUpperCase())\<close>: every underscore
  becomes a space, then every word character (\<^verbatim>\<open>[A-Za-z0-9_]\<close>) that starts the string
  or follows a character that is not a word character is put in upper case. Bytes of a
  non-ASCII character are not word characters, as in the regular expression.
\<close>

definition is_word_char :: "char \<Rightarrow> bool" where
  "is_word_char c =
    (let n = (of_char c :: nat)
     in (65 \<le> n \<and> n \<le> 90) \<or> (97 \<le> n \<and> n \<le> 122) \<or> (48 \<le> n \<and> n \<le> 57) \<or> n = 95)"

definition toUpperCase_char :: "char \<Rightarrow> char" where
  "toUpperCase_char c =
    (let n = (of_char c :: nat) in if 97 \<le> n \<and> n \<le> 122 then char_of (n - 32) else c)"

definition replace_underscores :: "string \<Rightarrow> string" where
  "replace_underscores s = map (\<lambda>c. if c = CHR ''_'' then CHR '' '' else c) s"

text \<open>The flag says whether the previous character was a word character.\<close>

fun upcase_word_starts :: "bool \<Rightarrow> string \<Rightarrow> string" where
  "upcase_word_starts prev [] = []"
| "upcase_word_starts prev (c # cs) =
     (if is_word_char c \<and> \<not> prev then toUpperCase_char c else c)
       # upcase_word_starts (is_word_char c) cs"

definition title_case :: "string \<Rightarrow> string" where
  "title_case name = upcase_word_starts False (replace_underscores name)"

text \<open>A number inside a template literal: its decimal digits.\<close>

fun nat_to_str :: "nat \<Rightarrow> string" where
  "nat_to_str n =
    (if n < 10 then [char_of (48 + n)] else nat_to_str (n div 10) @ [char_of (48 + n mod 10)])"

declare nat_to_str.simps [simp del]

text \<open>A possibly undefined string inside a template literal.\<close>

definition str_of_opt :: "string option \<Rightarrow> string" where
  "str_of_opt x = (case x of None \<Rightarrow> ''undefined'' | Some s \<Rightarrow> s)"

text \<open>\<^verbatim>\<open>Array.prototype.filter(Boolean)\<close> on strings and \<^verbatim>\<open>undefined\<close>.\<close>

definition filter_Boolean :: "string option list \<Rightarrow> string list" where
  "filter_Boolean xs = concat (map (\<lambda>x. case x of None \<Rightarrow> [] | Some s \<Rightarrow> if s = [] then [] else [s]) xs)"

text \<open>Mapping a function that may throw over an array: the first error ends the map.\<close>

fun map_err :: "('a \<Rightarrow> error + 'b) \<Rightarrow> 'a list \<Rightarrow> error + 'b list" where
  "map_err f [] = Inr []"
| "map_err f (x # xs) =
     (case f x of
        Inl e \<Rightarrow> Inl e
      | Inr y \<Rightarrow> (case map_err f xs of Inl e \<Rightarrow> Inl e | Inr ys \<Rightarrow> Inr (y # ys)))"

section \<open>The two shapes of \<^verbatim>\<open>skills\<close>\<close>

text \<open>
  What the property access \<^verbatim>\<open>skills.entries\<close> yields. On the object shape it is the
  own property \<^verbatim>\<open>entries\<close>. On an array it is the method
  \<^verbatim>\<open>Array.prototype.entries\<close>, which every array inherits: a function object.
\<close>

datatype entries_prop =
    EntriesObject "(string \<times> skill_spec) list"
  | ArrayEntriesMethod

definition skills_entries :: "skills \<Rightarrow> entries_prop" where
  "skills_entries s =
    (case s of SkillsArray names \<Rightarrow> ArrayEntriesMethod | SkillsEntries kvs \<Rightarrow> EntriesObject kvs)"

text \<open>Objects and functions are truthy.\<close>

definition truthy :: "entries_prop \<Rightarrow> bool" where
  "truthy e = (case e of EntriesObject kvs \<Rightarrow> True | ArrayEntriesMethod \<Rightarrow> True)"

text \<open>
  \<^verbatim>\<open>Object.keys\<close>: the own enumerable string keys. A function object has none.
\<close>

definition Object_keys :: "entries_prop \<Rightarrow> string list" where
  "Object_keys e = (case e of EntriesObject kvs \<Rightarrow> obj_keys kvs | ArrayEntriesMethod \<Rightarrow> [])"

text \<open>
  \<^verbatim>\<open>entries[skill]\<close>. The source reads it only for keys taken from
  \<^verbatim>\<open>Object.keys(entries)\<close>, so the function object is never indexed.
\<close>

definition entries_get :: "entries_prop \<Rightarrow> string \<Rightarrow> skill_spec option" where
  "entries_get e k = (case e of EntriesObject kvs \<Rightarrow> obj_get kvs k | ArrayEntriesMethod \<Rightarrow> None)"

text \<open>
  \<^verbatim>\<open>skills.map(f)\<close> and \<^verbatim>\<open>skills.join(sep)\<close>: array methods. The object shape has no
  such property, and calling \<^verbatim>\<open>undefined\<close> throws a TypeError.
\<close>

definition skills_map :: "skills \<Rightarrow> (string \<Rightarrow> 'a) \<Rightarrow> error + 'a list" where
  "skills_map s f = (case s of SkillsArray names \<Rightarrow> Inr (map f names) | SkillsEntries kvs \<Rightarrow> Inl TypeError)"


section \<open>The workspace on disk\<close>

text \<open>
  The objects that the source hands to \<^verbatim>\<open>yaml.stringify\<close> and \<^verbatim>\<open>JSON.stringify\<close>.
  Both serializers are library functions; a file written through one of them is modelled
  by the object that is serialized.
\<close>

record clawdbot_workspace =
  cw_name :: string
  cw_description :: string
  cw_created :: string
  cw_user_type :: string

record clawdbot_skill =
  cs_name :: string
  cs_enabled :: bool
  cs_auto_install :: bool

record clawdbot_config =
  cc_workspace :: clawdbot_workspace
  cc_skills :: "clawdbot_skill list"
  cc_integrations :: "(string \<times> integration) list"
  cc_automations :: "(string \<times> automation) list option"
  cc_workflows :: "jsval list"

record automation_def =
  ad_name :: string
  ad_schedule :: string
  ad_description :: string
  ad_actions :: "jsval list"

datatype skills_needed =
    NeededNames "string list"
  | NeededVerbatim skills

record automation_example =
  ae_name :: string
  ae_description :: string
  ae_template :: template
  ae_usage_instructions :: string
  ae_skills_needed :: skills_needed

datatype document =
    ClawdbotConfig clawdbot_config
  | AutomationDef automation_def
  | AutomationExample automation_example
  | SkillsConfig "(string \<times> skill_spec) list"

text \<open>
  A file's content is a sequence of pieces: literal text, or the serialization of a
  document by \<^verbatim>\<open>yaml.stringify(d)\<close>, \<^verbatim>\<open>JSON.stringify(d, null, 2)\<close> or
  \<^verbatim>\<open>JSON.stringify(d)\<close>.
\<close>

datatype piece =
    Lit string
  | Yaml document
  | Json_indent2 document
  | Json document

type_synonym content = "piece list"

text \<open>
  The file system: the directories that exist and the content of each file, by path.
  File system failures are outside the model: \<^verbatim>\<open>fs.ensureDir\<close> and
  \<^verbatim>\<open>fs.writeFile\<close> always succeed, and \<^verbatim>\<open>writeFile\<close> replaces whatever the path held.
  \<^verbatim>\<open>path.join\<close> puts a separator between its arguments; its normalisation of the
  result is not modelled.
\<close>

record fs =
  fs_dirs :: "string set"
  fs_files :: "string \<Rightarrow> content option"

definition path_join :: "string list \<Rightarrow> string" where
  "path_join segments = js_join ''/'' segments"

definition ensureDir :: "string \<Rightarrow> fs \<Rightarrow> fs" where
  "ensureDir dir f = f\<lparr>fs_dirs := insert dir (fs_dirs f)\<rparr>"

definition writeFile :: "string \<Rightarrow> content \<Rightarrow> fs \<Rightarrow> fs" where
  "writeFile file data f = f\<lparr>fs_files := (fs_files f)(file \<mapsto> data)\<rparr>"

section \<open>setup.js: AGENTS.md\<close>

text \<open>One block of the focus areas, for one entry of \<^verbatim>\<open>template.automations\<close>.\<close>

definition agents_automation_block :: "string \<Rightarrow> automation \<Rightarrow> string" where
  "agents_automation_block name automation =
    ''### '' @ title_case name @ ''\<newline>'' @
    ''- **Schedule:** '' @ auto_schedule automation @ ''\<newline>'' @
    ''- **Priority:** '' @ or_opt (auto_priority automation) ''medium'' @ ''\<newline>'' @
    ''- **Description:** '' @ or_opt (auto_description automation) ''Automated workflow'' @ ''\<newline>'' @
    (case auto_includes automation of
       Some includes \<Rightarrow> js_join ''\<newline>'' (map (\<lambda>item. ''  - '' @ item) includes)
     | None \<Rightarrow> []) @
    ''\<newline>''"

definition agents_automations :: "template \<Rightarrow> string" where
  "agents_automations template =
    (case tmpl_automations template of
       Some automations \<Rightarrow>
         js_join ''\<newline>'' (map (\<lambda>(name, automation). agents_automation_block name automation) automations)
     | None \<Rightarrow> [])"

definition agents_demo_scenarios :: "template \<Rightarrow> string" where
  "agents_demo_scenarios template =
    (case tmpl_demo_scenarios template of
       Some demo_scenarios \<Rightarrow>
         js_join ''\<newline>''
           (map (\<lambda>scenario.
                   ''### '' @ scen_name scenario @ ''\<newline>'' @
                   scen_description scenario @ ''\<newline>'' @
                   ''**Time saved:** '' @ scen_time_saved scenario @ ''\<newline>'')
                demo_scenarios)
     | None \<Rightarrow> [])"

definition agents_impact_metrics :: "template \<Rightarrow> string" where
  "agents_impact_metrics template =
    (case tmpl_impact_metrics template of
       Some impact_metrics \<Rightarrow>
         ''\<newline>'' @
         ''**Expected Time Savings:**\<newline>'' @
         ''- Daily: '' @ daily_time_saved impact_metrics @ ''\<newline>'' @
         ''- Weekly: '' @ weekly_time_saved impact_metrics @ ''  \<newline>'' @
         ''- Monthly: '' @ monthly_time_saved impact_metrics @ ''\<newline>'' @
         ''\<newline>'' @
         ''**Primary Benefits:**\<newline>'' @
         (case primary_benefits impact_metrics of
            Some benefits \<Rightarrow> js_join ''\<newline>'' (map (\<lambda>benefit. ''- '' @ benefit) benefits)
          | None \<Rightarrow> []) @
         ''\<newline>''
     | None \<Rightarrow> [])"

text \<open>
  The skills list branches on \<^verbatim>\<open>template.skills.entries\<close>. Reading
  \<^verbatim>\<open>.description\<close> of a missing entry would throw.
\<close>

definition agents_skills :: "template \<Rightarrow> error + string" where
  "agents_skills template =
    (let entries = skills_entries (tmpl_skills template)
     in if truthy entries
        then (case map_err
                     (\<lambda>skill. case entries_get entries skill of
                                None \<Rightarrow> Inl TypeError
                              | Some spec \<Rightarrow>
                                  Inr (''- **'' @ skill @ ''**: '' @
                                       or_opt (skill_description spec) ''Official OpenClaw skill''))
                     (Object_keys entries) of
                Inl e \<Rightarrow> Inl e
              | Inr lines \<Rightarrow> Inr (js_join ''\<newline>'' lines))
        else (case skills_map (tmpl_skills template)
                     (\<lambda>skill. ''- **'' @ skill @ ''**: Official OpenClaw skill'') of
                Inl e \<Rightarrow> Inl e
              | Inr lines \<Rightarrow> Inr (js_join ''\<newline>'' lines)))"

definition agents_static_tail :: string where
  "agents_static_tail =
    ''\<newline>'' @
    ''\<newline>'' @
    ''## '' @ emoji_clipboard @ '' Daily Operating Principles\<newline>'' @
    ''\<newline>'' @
    ''1. **Proactive Monitoring**: Check metrics and systems before issues arise\<newline>'' @
    ''2. **Data-Driven Insights**: Always provide context and trends, not just numbers\<newline>'' @
    ''3. **Actionable Recommendations**: Every brief should include specific next steps\<newline>'' @
    ''4. **Time-Conscious**: Prioritize high-impact activities that save the most time\<newline>'' @
    ''5. **Communication**: Keep updates clear, concise, and decision-focused\<newline>'' @
    ''\<newline>'' @
    ''## '' @ emoji_siren @ '' Alert Thresholds\<newline>'' @
    ''\<newline>'' @
    ''Be proactive about flagging:\<newline>'' @
    ''- Metrics trending negative >2 days\<newline>'' @
    ''- Team blockers that could impact deadlines\<newline>'' @
    ''- Competitive moves requiring immediate response\<newline>'' @
    ''- Budget/runway concerns requiring founder attention\<newline>'' @
    ''\<newline>'' @
    ''---\<newline>'' @
    ''\<newline>'' @
    ''*This file is loaded every OpenClaw session. Update it as your needs evolve.*\<newline>''"

definition agentsContent :: "config \<Rightarrow> error + string" where
  "agentsContent config =
    (let template = cfg_template config
     in case agents_skills template of
          Inl e \<Rightarrow> Inl e
        | Inr skills_list \<Rightarrow>
            Inr (''# AGENTS.md - '' @ tmpl_name template @ '' Operating Instructions\<newline>'' @
                 ''\<newline>'' @
                 tmpl_description template @ ''\<newline>'' @
                 ''\<newline>'' @
                 ''## '' @ emoji_target @ '' Your Role: '' @ tmpl_name template @ ''\<newline>'' @
                 ''\<newline>'' @
                 ''You are an AI assistant specialized for '' @ user_type (cfg_user config) @
                 '' workflows. Your primary focus areas:\<newline>'' @
                 ''\<newline>'' @
                 agents_automations template @ ''\<newline>'' @
                 ''\<newline>'' @
                 ''## '' @ emoji_bulb @ '' Demo Scenarios\<newline>'' @
                 ''\<newline>'' @
                 agents_demo_scenarios template @ ''\<newline>'' @
                 ''\<newline>'' @
                 ''## '' @ emoji_zap @ '' Impact Metrics\<newline>'' @
                 ''\<newline>'' @
                 agents_impact_metrics template @ ''\<newline>'' @
                 ''\<newline>'' @
                 ''## '' @ emoji_tools @ '' Available Skills\<newline>'' @
                 ''\<newline>'' @
                 ''You have access to these OpenClaw skills:\<newline>'' @
                 skills_list @
                 agents_static_tail))"

definition generateAgentsFile :: "config \<Rightarrow> string \<Rightarrow> fs \<Rightarrow> error + fs" where
  "generateAgentsFile config workspacePath f =
    (case agentsContent config of
       Inl e \<Rightarrow> Inl e
     | Inr content \<Rightarrow> Inr (writeFile (path_join [workspacePath, ''AGENTS.md'']) [Lit content] f))"

section \<open>setup.js: HEARTBEAT.md\<close>

text \<open>
  The three tests on \<^verbatim>\<open>automation.schedule\<close>, one per section of the file.
\<close>

definition is_daily :: "string \<Rightarrow> bool" where
  "is_daily schedule = str_includes schedule ''daily''"

definition is_weekly :: "string \<Rightarrow> bool" where
  "is_weekly schedule = (str_includes schedule ''Weekly'' \<or> str_includes schedule ''weekly'')"

definition is_monthly :: "string \<Rightarrow> bool" where
  "is_monthly schedule = (str_includes schedule ''Monthly'' \<or> str_includes schedule ''monthly'')"

definition heartbeat_daily_block :: "string \<Rightarrow> automation \<Rightarrow> string" where
  "heartbeat_daily_block name automation =
    ''### '' @ title_case name @ ''\<newline>'' @
    ''- **When:** '' @ auto_schedule automation @ ''\<newline>'' @
    ''- **Priority:** '' @ or_opt (auto_priority automation) ''medium'' @ ''\<newline>'' @
    ''- **What:** '' @ str_of_opt (auto_description automation) @ ''\<newline>'' @
    ''- **Actions:**\<newline>'' @
    (case auto_includes automation of
       Some includes \<Rightarrow> js_join ''\<newline>'' (map (\<lambda>item. ''  - Check and report on: '' @ item) includes)
     | None \<Rightarrow> ''  - Execute automation workflow'') @
    ''\<newline>''"

definition heartbeat_weekly_block :: "string \<Rightarrow> automation \<Rightarrow> string" where
  "heartbeat_weekly_block name automation =
    ''### '' @ title_case name @ ''\<newline>'' @
    ''- **When:** '' @ auto_schedule automation @ ''\<newline>'' @
    ''- **Priority:** '' @ or_opt (auto_priority automation) ''medium'' @ ''  \<newline>'' @
    ''- **What:** '' @ str_of_opt (auto_description automation) @ ''\<newline>'' @
    ''- **Actions:**\<newline>'' @
    (case auto_includes automation of
       Some includes \<Rightarrow> js_join ''\<newline>'' (map (\<lambda>item. ''  - Analyze and summarize: '' @ item) includes)
     | None \<Rightarrow> ''  - Execute weekly workflow'') @
    ''\<newline>''"

definition heartbeat_monthly_block :: "string \<Rightarrow> automation \<Rightarrow> string" where
  "heartbeat_monthly_block name automation =
    ''### '' @ title_case name @ ''\<newline>'' @
    ''- **When:** '' @ auto_schedule automation @ ''\<newline>'' @
    ''- **Priority:** '' @ or_opt (auto_priority automation) ''medium'' @ ''\<newline>'' @
    ''- **What:** '' @ str_of_opt (auto_description automation) @ ''\<newline>'' @
    ''- **Actions:**\<newline>'' @
    (case auto_includes automation of
       Some includes \<Rightarrow> js_join ''\<newline>'' (map (\<lambda>item. ''  - Deep analysis of: '' @ item) includes)
     | None \<Rightarrow> ''  - Execute periodic workflow'') @
    ''\<newline>''"

text \<open>
  Each section maps every entry to its block or to \<^verbatim>\<open>undefined\<close>, drops the falsy
  results and joins the rest. The lists of blocks are kept apart from the joined text.
\<close>

definition heartbeat_daily_blocks :: "(string \<times> automation) list \<Rightarrow> string list" where
  "heartbeat_daily_blocks automations =
    filter_Boolean
      (map (\<lambda>(name, automation).
              if is_daily (auto_schedule automation)
              then Some (heartbeat_daily_block name automation) else None)
           automations)"

definition heartbeat_weekly_blocks :: "(string \<times> automation) list \<Rightarrow> string list" where
  "heartbeat_weekly_blocks automations =
    filter_Boolean
      (map (\<lambda>(name, automation).
              if is_weekly (auto_schedule automation)
              then Some (heartbeat_weekly_block name automation) else None)
           automations)"

definition heartbeat_monthly_blocks :: "(string \<times> automation) list \<Rightarrow> string list" where
  "heartbeat_monthly_blocks automations =
    filter_Boolean
      (map (\<lambda>(name, automation).
              if is_monthly (auto_schedule automation)
              then Some (heartbeat_monthly_block name automation) else None)
           automations)"

definition heartbeat_daily_section :: "template \<Rightarrow> string" where
  "heartbeat_daily_section template =
    (case tmpl_automations template of
       Some automations \<Rightarrow> js_join ''\<newline>'' (heartbeat_daily_blocks automations)
     | None \<Rightarrow> [])"

definition heartbeat_weekly_section :: "template \<Rightarrow> string" where
  "heartbeat_weekly_section template =
    (case tmpl_automations template of
       Some automations \<Rightarrow> js_join ''\<newline>'' (heartbeat_weekly_blocks automations)
     | None \<Rightarrow> [])"

definition heartbeat_monthly_section :: "template \<Rightarrow> string" where
  "heartbeat_monthly_section template =
    (case tmpl_automations template of
       Some automations \<Rightarrow> js_join ''\<newline>'' (heartbeat_monthly_blocks automations)
     | None \<Rightarrow> [])"

definition heartbeatContent :: "config \<Rightarrow> string" where
  "heartbeatContent config =
    (let template = cfg_template config
     in ''# HEARTBEAT.md - '' @ tmpl_name template @ '' Automation\<newline>'' @
        ''\<newline>'' @
        ''Automated periodic tasks for '' @ user_type (cfg_user config) @ '' workflows.\<newline>'' @
        ''\<newline>'' @
        ''## '' @ emoji_cycle @ '' Daily Automation Tasks\<newline>'' @
        ''\<newline>'' @
        heartbeat_daily_section template @ ''\<newline>'' @
        ''\<newline>'' @
        ''## '' @ emoji_chart @ '' Weekly Tasks\<newline>'' @
        ''\<newline>'' @
        heartbeat_weekly_section template @ ''\<newline>'' @
        ''\<newline>'' @
        ''## '' @ emoji_calendar @ '' Monthly/Periodic Tasks\<newline>'' @
        ''\<newline>'' @
        heartbeat_monthly_section template @ ''\<newline>'' @
        ''\<newline>'' @
        ''## '' @ emoji_zap @ '' Proactive Monitoring\<newline>'' @
        ''\<newline>'' @
        ''Between scheduled tasks, monitor for:\<newline>'' @
        ''- Critical metrics falling outside normal ranges\<newline>'' @
        ''- Team blockers that need immediate escalation  \<newline>'' @
        ''- Competitive intelligence requiring rapid response\<newline>'' @
        ''- Opportunities for strategic advantage\<newline>'' @
        ''\<newline>'' @
        ''## '' @ emoji_target @ '' Success Metrics\<newline>'' @
        ''\<newline>'' @
        ''Track automation effectiveness:\<newline>'' @
        ''- Time saved per task category\<newline>'' @
        ''- Issues caught proactively vs. reactively\<newline>'' @
        ''- Decision speed improvement\<newline>'' @
        ''- Overall '' @ user_type (cfg_user config) @ '' productivity gains\<newline>'' @
        ''\<newline>'' @
        ''---\<newline>'' @
        ''\<newline>'' @
        ''*Keep this file focused and actionable. OpenClaw reads this for automated tasks.*\<newline>'')"

definition generateHeartbeatFile :: "config \<Rightarrow> string \<Rightarrow> fs \<Rightarrow> error + fs" where
  "generateHeartbeatFile config workspacePath f =
    Inr (writeFile (path_join [workspacePath, ''HEARTBEAT.md'']) [Lit (heartbeatContent config)] f)"


section \<open>setup.js: the automation template and the morning brief\<close>

definition usage_instructions :: string where
  "usage_instructions =
    ''\<newline>'' @
    ''# How to Use This Template\<newline>'' @
    ''\<newline>'' @
    ''1. Copy this template for new automations\<newline>'' @
    ''2. Customize the triggers and actions for your needs\<newline>'' @
    ''3. Test with small data sets first\<newline>'' @
    ''4. Scale up once working properly\<newline>'' @
    ''\<newline>'' @
    ''# OpenClaw Integration\<newline>'' @
    ''\<newline>'' @
    ''This template is designed to work with OpenClaw's automation system.\<newline>'' @
    ''Configure skills in ~/.openclaw/openclaw.json using the provided configuration.\<newline>''"

text \<open>The object \<^verbatim>\<open>automationExample\<close> built by \<^verbatim>\<open>generateAutomationTemplates\<close>.\<close>

definition automationExample :: "config \<Rightarrow> automation_example" where
  "automationExample config =
    (let template = cfg_template config
     in \<lparr>ae_name = user_type (cfg_user config) @ ''_automation_example'',
         ae_description = ''Example automation workflow for '' @ user_type (cfg_user config),
         ae_template = template,
         ae_usage_instructions = usage_instructions,
         ae_skills_needed =
           (if truthy (skills_entries (tmpl_skills template))
            then NeededNames (Object_keys (skills_entries (tmpl_skills template)))
            else NeededVerbatim (tmpl_skills template))\<rparr>)"

definition generateAutomationTemplates :: "config \<Rightarrow> string \<Rightarrow> fs \<Rightarrow> error + fs" where
  "generateAutomationTemplates config workspacePath f =
    (let templatesDir = path_join [workspacePath, ''templates''];
         f = ensureDir templatesDir f
     in Inr (writeFile
               (path_join [templatesDir, user_type (cfg_user config) @ ''-automation-template.json''])
               [Json_indent2 (AutomationExample (automationExample config))] f))"

text \<open>
  \<^verbatim>\<open>generateMorningBrief\<close>. The rendering of the clock,
  \<^verbatim>\<open>new Date().toLocaleDateString()\<close>, is the parameter \<open>today\<close>.
  \<^verbatim>\<open>Object.keys(undefined)\<close> throws a TypeError.
\<close>

definition morning_priorities :: "config \<Rightarrow> string" where
  "morning_priorities config =
    (case user_goals (cfg_user config) of
       None \<Rightarrow> ''- General productivity tasks''
     | Some goals \<Rightarrow>
         or_str (js_join ''\<newline>'' (map (\<lambda>goal. ''- Work on: '' @ goal) goals))
                ''- General productivity tasks'')"

definition morning_metrics :: "config \<Rightarrow> string" where
  "morning_metrics config =
    (if user_type (cfg_user config) = ''founder'' then
       ''\<newline>'' @
       ''- Revenue tracking: *Setup pending*\<newline>'' @
       ''- User growth: *Setup pending*\<newline>'' @
       ''- Team updates: *Setup pending*\<newline>''
     else if user_type (cfg_user config) = ''engineer'' then
       ''\<newline>'' @
       ''- PR reviews pending: *Setup pending*\<newline>'' @
       ''- GitHub notifications: *Setup pending*\<newline>'' @
       ''- CI/CD status: *Setup pending*\<newline>''
     else
       ''\<newline>'' @
       ''- Daily goals: *Setup pending*\<newline>'' @
       ''- Important updates: *Setup pending*\<newline>'')"

definition morningBrief :: "config \<Rightarrow> string \<Rightarrow> error + string" where
  "morningBrief config today =
    (case tmpl_automations (cfg_template config) of
       None \<Rightarrow> Inl TypeError
     | Some automations \<Rightarrow>
         Inr (''# Morning Brief - '' @ today @ ''\<newline>'' @
              ''\<newline>'' @
              ''*Your AI employee has prepared this briefing*\<newline>'' @
              ''\<newline>'' @
              ''## '' @ emoji_target @ '' Today's Priorities\<newline>'' @
              ''\<newline>'' @
              morning_priorities config @ ''\<newline>'' @
              ''\<newline>'' @
              ''## '' @ emoji_calendar @ '' Schedule Overview\<newline>'' @
              ''\<newline>'' @
              ''*Calendar integration will populate this section*\<newline>'' @
              ''\<newline>'' @
              ''## '' @ emoji_chart @ '' Key Metrics\<newline>'' @
              ''\<newline>'' @
              morning_metrics config @ ''\<newline>'' @
              ''\<newline>'' @
              ''## '' @ emoji_bell @ '' Notifications\<newline>'' @
              ''\<newline>'' @
              ''- '' @ emoji_check @ '' AI employee workspace configured\<newline>'' @
              ''- '' @ emoji_hourglass @ '' Integrations pending: '' @
              js_join '', '' (obj_keys (cfg_integrations config)) @ ''\<newline>'' @
              ''- '' @ emoji_clipboard @ '' Automations ready: '' @
              nat_to_str (length (obj_keys automations)) @ '' workflows\<newline>'' @
              ''\<newline>'' @
              ''## '' @ emoji_bulb @ '' Suggestions\<newline>'' @
              ''\<newline>'' @
              ''1. Review and customize your automations in `automations/`\<newline>'' @
              ''2. Set up integrations for: '' @
              js_join '', '' (obj_keys (cfg_integrations config)) @ ''\<newline>'' @
              ''3. Check back tomorrow for your first real brief!\<newline>'' @
              ''\<newline>'' @
              ''---\<newline>'' @
              ''\<newline>'' @
              ''*This briefing will improve as your integrations are configured*\<newline>''))"

definition generateMorningBrief :: "config \<Rightarrow> string \<Rightarrow> string \<Rightarrow> fs \<Rightarrow> error + fs" where
  "generateMorningBrief config workspacePath today f =
    (case morningBrief config today of
       Inl e \<Rightarrow> Inl e
     | Inr content \<Rightarrow>
         Inr (writeFile (path_join [workspacePath, ''morning-brief.md'']) [Lit content] f))"

section \<open>setup.js: the entry point\<close>

definition generateOpenClawWorkspace :: "config \<Rightarrow> string \<Rightarrow> fs \<Rightarrow> error + fs" where
  "generateOpenClawWorkspace config workspacePath f = Inr (ensureDir workspacePath f)"

text \<open>
  \<^verbatim>\<open>generateSetup\<close> awaits its five steps in order; an exception in one step ends the
  run. The value returned is the file system after the run (the source returns
  \<^verbatim>\<open>workspacePath\<close>).
\<close>

definition generateSetup :: "config \<Rightarrow> string \<Rightarrow> string \<Rightarrow> fs \<Rightarrow> error + fs" where
  "generateSetup config workspacePath today f =
    (case generateOpenClawWorkspace config workspacePath f of
       Inl e \<Rightarrow> Inl e
     | Inr f \<Rightarrow>
    (case generateAgentsFile config workspacePath f of
       Inl e \<Rightarrow> Inl e
     | Inr f \<Rightarrow>
    (case generateHeartbeatFile config workspacePath f of
       Inl e \<Rightarrow> Inl e
     | Inr f \<Rightarrow>
    (case generateAutomationTemplates config workspacePath f of
       Inl e \<Rightarrow> Inl e
     | Inr f \<Rightarrow>
    generateMorningBrief config workspacePath today f))))"

section \<open>setup.js: generators that the entry point does not call\<close>

definition createWorkspaceStructure :: "string \<Rightarrow> fs \<Rightarrow> fs" where
  "createWorkspaceStructure workspacePath f =
    (let directories = [''config'', ''automations'', ''workflows'', ''integrations'', ''docs'', ''logs'']
     in foldl (\<lambda>f dir. ensureDir (path_join [workspacePath, dir]) f) f directories)"











section \<open>wizard.js: the skills configuration\<close>

text \<open>
  \<^verbatim>\<open>wizard.js\<close> holds two revisions of the wizard. \<^verbatim>\<open>configureIntegrations\<close> and
  \<^verbatim>\<open>generateConfiguration\<close> are the same in both. The later revision writes the skills
  configuration with \<^verbatim>\<open>configureSkillsForRole\<close>, modelled here.
\<close>

text \<open>\<^verbatim>\<open>for (const skill of skills)\<close> on the skills field itself: a plain object is not iterable.\<close>

definition skills_iterate :: "skills \<Rightarrow> error + string list" where
  "skills_iterate s = (case s of SkillsArray names \<Rightarrow> Inr names | SkillsEntries kvs \<Rightarrow> Inl TypeError)"

text \<open>
  \<^verbatim>\<open>{enabled: true, ...spec}\<close>: the spread keeps every property of the spec, and an
  \<^verbatim>\<open>enabled\<close> of the spec replaces the default.
\<close>

definition spread_enabled :: "skill_spec \<Rightarrow> skill_spec" where
  "spread_enabled spec =
    spec\<lparr>skill_enabled := Some (case skill_enabled spec of None \<Rightarrow> True | Some b \<Rightarrow> b)\<rparr>"

text \<open>The body of the loop, on the object \<^verbatim>\<open>skillsConfig.skills.entries\<close>.\<close>

definition configure_skill ::
  "entries_prop \<Rightarrow> (string \<times> skill_spec) list \<Rightarrow> string \<Rightarrow> (string \<times> skill_spec) list" where
  "configure_skill entries configured skill =
    (let configured =
           obj_set configured skill
             \<lparr>skill_enabled = Some True, skill_description = None, skill_extra = []\<rparr>
     in if truthy entries
        then (case entries_get entries skill of
                Some spec \<Rightarrow> obj_set configured skill (spread_enabled spec)
              | None \<Rightarrow> configured)
        else configured)"

definition configureSkillsForRole :: "config \<Rightarrow> string \<Rightarrow> fs \<Rightarrow> error + fs" where
  "configureSkillsForRole config workspacePath f =
    (let entries = skills_entries (tmpl_skills (cfg_template config))
     in case (if truthy entries then Inr (Object_keys entries)
              else skills_iterate (tmpl_skills (cfg_template config))) of
          Inl e \<Rightarrow> Inl e
        | Inr skills \<Rightarrow>
            (let skillsConfig = foldl (configure_skill entries) [] skills;
                 configSnippet =
                   [Lit (''\<newline>'' @
                         ''# Add this to your ~/.openclaw/openclaw.json file:\<newline>''),
                    Json_indent2 (SkillsConfig skillsConfig),
                    Lit (''\<newline>'' @
                         ''\<newline>'' @
                         ''# Or run: openclaw config patch --raw '' @ [CHR 0x27]),
                    Json (SkillsConfig skillsConfig),
                    Lit ([CHR 0x27] @ ''\<newline>'')]
             in Inr (writeFile (path_join [workspacePath, ''openclaw-skills-config.json''])
                       configSnippet f)))"

definition setupWorkspace :: "config \<Rightarrow> string \<Rightarrow> string \<Rightarrow> fs \<Rightarrow> error + fs" where
  "setupWorkspace config homedir today f =
    (let workspacePath = path_join [homedir, ''clawd''];
         f = ensureDir workspacePath f
     in case generateSetup config workspacePath today f of
          Inl e \<Rightarrow> Inl e
        | Inr f \<Rightarrow> configureSkillsForRole config workspacePath f)"


section \<open>Example inputs\<close>

text \<open>A template with three automations, a configuration built from it, and an empty disk.\<close>

definition example_automations :: "(string \<times> automation) list" where
  "example_automations =
    [(''morning_brief'',
      \<lparr>auto_schedule = ''8:00 AM daily'', auto_description = Some ''Daily briefing'',
       auto_priority = Some ''high'', auto_includes = Some [''calendar'', ''email'']\<rparr>),
     (''investor_update'',
      \<lparr>auto_schedule = ''Weekly Friday 4:00 PM'', auto_description = Some ''Investor update'',
       auto_priority = None, auto_includes = None\<rparr>),
     (''code_review'',
      \<lparr>auto_schedule = ''On PR creation'', auto_description = None,
       auto_priority = None, auto_includes = None\<rparr>)]"

definition example_template :: "skills \<Rightarrow> template" where
  "example_template sk =
    \<lparr>tmpl_name = ''Founder Assistant'', tmpl_description = ''Runs the company inbox'',
     tmpl_automations = Some example_automations, tmpl_skills = sk,
     tmpl_demo_scenarios = None, tmpl_impact_metrics = None, tmpl_workflows = None\<rparr>"

definition example_answers :: "string \<Rightarrow> answers" where
  "example_answers ty =
    \<lparr>ans_userType = ty, ans_goals = None, ans_experience = ''beginner'',
     ans_tools = [''gmail'', ''github'']\<rparr>"

definition example_config :: "string \<Rightarrow> skills \<Rightarrow> config" where
  "example_config ty sk =
    generateConfiguration (example_answers ty) (example_template sk)
      (configureIntegrations (ans_tools (example_answers ty))) ''2026-01-01T00:00:00.000Z''"


definition empty_fs :: fs where
  "empty_fs = \<lparr>fs_dirs = {}, fs_files = (\<lambda>p. None)\<rparr>"


section \<open>Integration toggles\<close>

lemma arr_includes_iff: "arr_includes xs x = (x \<in> set xs)"
  by (simp add: arr_includes_def)

lemma configureIntegrations_eq:
  "configureIntegrations tools =
     (if ''gmail'' \<in> set tools
      then [(''email'', \<lparr>provider = Some ''gmail'', platforms = None,
               features = [''automation'', ''smart_inbox'', ''scheduling'']\<rparr>)] else []) @
     (if ''calendar'' \<in> set tools
      then [(''calendar'', \<lparr>provider = Some ''google'', platforms = None,
               features = [''scheduling'', ''meeting_prep'', ''availability'']\<rparr>)] else []) @
     (if ''github'' \<in> set tools
      then [(''github'', \<lparr>provider = None, platforms = None,
               features = [''pr_reviews'', ''issue_tracking'', ''repo_analytics'']\<rparr>)] else []) @
     (if ''social'' \<in> set tools
      then [(''social'', \<lparr>provider = None, platforms = Some [''linkedin'', ''twitter''],
               features = [''content_scheduling'', ''analytics'', ''engagement'']\<rparr>)] else [])"
  by (simp add: configureIntegrations_def arr_includes_iff Let_def)

lemma recognized_filter_mem:
  "recognized k \<Longrightarrow> (k \<in> set (filter recognized tools)) = (k \<in> set tools)"
  by simp

text \<open>
  C6. For every list of selected tools, \<^verbatim>\<open>configureIntegrations\<close> returns a value
  (it has no error result) made of one fixed entry per recognized identifier that is
  selected: \<^verbatim>\<open>gmail\<close> gives \<^verbatim>\<open>email\<close>, and \<^verbatim>\<open>github\<close> gives
  \<^verbatim>\<open>{features: [pr_reviews, issue_tracking, repo_analytics]}\<close>. Identifiers that are not
  recognized change nothing: the result is that of the recognized identifiers alone. The
  assembly of the configuration either returns a configuration or fails with
  \<^verbatim>\<open>TemplateNotFound\<close>.
\<close>

theorem configureIntegrations_expands_recognized:
  "configureIntegrations tools =
     (if ''gmail'' \<in> set tools
      then [(''email'', \<lparr>provider = Some ''gmail'', platforms = None,
               features = [''automation'', ''smart_inbox'', ''scheduling'']\<rparr>)] else []) @
     (if ''calendar'' \<in> set tools
      then [(''calendar'', \<lparr>provider = Some ''google'', platforms = None,
               features = [''scheduling'', ''meeting_prep'', ''availability'']\<rparr>)] else []) @
     (if ''github'' \<in> set tools
      then [(''github'', \<lparr>provider = None, platforms = None,
               features = [''pr_reviews'', ''issue_tracking'', ''repo_analytics'']\<rparr>)] else []) @
     (if ''social'' \<in> set tools
      then [(''social'', \<lparr>provider = None, platforms = Some [''linkedin'', ''twitter''],
               features = [''content_scheduling'', ''analytics'', ''engagement'']\<rparr>)] else [])
   \<and> configureIntegrations tools = configureIntegrations (filter recognized tools)
   \<and> (assemble catalog answers now_iso = Inl TemplateNotFound
        \<or> (\<exists>t. catalog (ans_userType answers) = Some t
              \<and> assemble catalog answers now_iso =
                  Inr (generateConfiguration answers t
                         (configureIntegrations (ans_tools answers)) now_iso)))"
proof (intro conjI)
  show "configureIntegrations tools = configureIntegrations (filter recognized tools)"
    unfolding configureIntegrations_eq [of tools]
      configureIntegrations_eq [of "filter recognized tools"]
    by (simp add: recognized_def)
next
  show "assemble catalog answers now_iso = Inl TemplateNotFound
        \<or> (\<exists>t. catalog (ans_userType answers) = Some t
              \<and> assemble catalog answers now_iso =
                  Inr (generateConfiguration answers t
                         (configureIntegrations (ans_tools answers)) now_iso))"
    by (cases "catalog (ans_userType answers)") (simp_all add: assemble_def loadTemplate_def)
qed (rule configureIntegrations_eq)

theorem configureIntegrations_expands_recognized_witness:
  "configureIntegrations [''github'', ''slack''] =
     [(''github'', \<lparr>provider = None, platforms = None,
         features = [''pr_reviews'', ''issue_tracking'', ''repo_analytics'']\<rparr>)]
   \<and> configureIntegrations [''github'', ''slack''] = configureIntegrations [''github'']"
  using configureIntegrations_expands_recognized [of "[''github'', ''slack'']"]
  by (simp add: recognized_def configureIntegrations_def arr_includes_def)

text \<open>
  C10. The keys of the mapping returned by \<^verbatim>\<open>configureIntegrations\<close> are among
  \<^verbatim>\<open>email\<close>, \<^verbatim>\<open>calendar\<close>, \<^verbatim>\<open>github\<close> and \<^verbatim>\<open>social\<close>. The key \<^verbatim>\<open>email\<close> is
  present exactly when \<^verbatim>\<open>gmail\<close> is selected, and selecting \<^verbatim>\<open>email\<close> alone produces
  no entry. An entry under a key is the same for any two inputs that produce that key.
\<close>

theorem configureIntegrations_keys_and_constants:
  "set (obj_keys (configureIntegrations tools)) \<subseteq> {''email'', ''calendar'', ''github'', ''social''}
   \<and> ((''email'' \<in> set (obj_keys (configureIntegrations tools))) = (''gmail'' \<in> set tools))
   \<and> configureIntegrations [''email''] = []
   \<and> (\<forall>v v'. obj_get (configureIntegrations tools) k = Some v
          \<and> obj_get (configureIntegrations tools') k = Some v' \<longrightarrow> v = v')"
  unfolding configureIntegrations_eq obj_keys_def obj_get_def
  by (auto split: if_splits)

theorem configureIntegrations_keys_and_constants_witness:
  "obj_get (configureIntegrations [''gmail'', ''email'']) ''email'' =
     Some \<lparr>provider = Some ''gmail'', platforms = None,
            features = [''automation'', ''smart_inbox'', ''scheduling'']\<rparr>
   \<and> obj_get (configureIntegrations [''social'', ''gmail'']) ''email'' =
     obj_get (configureIntegrations [''gmail'', ''email'']) ''email''
   \<and> obj_keys (configureIntegrations [''social'', ''gmail'']) = [''email'', ''social'']"
proof -
  have a: "obj_get (configureIntegrations [''gmail'', ''email'']) ''email'' =
     Some \<lparr>provider = Some ''gmail'', platforms = None,
            features = [''automation'', ''smart_inbox'', ''scheduling'']\<rparr>"
    by (simp add: configureIntegrations_def arr_includes_def obj_get_def)
  have b: "obj_get (configureIntegrations [''social'', ''gmail'']) ''email'' =
     Some \<lparr>provider = Some ''gmail'', platforms = None,
            features = [''automation'', ''smart_inbox'', ''scheduling'']\<rparr>"
    by (simp add: configureIntegrations_def arr_includes_def obj_get_def)
  have c: "obj_keys (configureIntegrations [''social'', ''gmail'']) = [''email'', ''social'']"
    by (simp add: configureIntegrations_def arr_includes_def obj_keys_def)
  from configureIntegrations_keys_and_constants
         [where tools = "[''social'', ''gmail'']" and tools' = "[''gmail'', ''email'']"
            and k = "''email''"] a b c
  show ?thesis by simp
qed


section \<open>Schedule tests and the sections of HEARTBEAT.md\<close>

lemma filter_Boolean_map_if:
  assumes "\<And>n a. blk n a \<noteq> []"
  shows "filter_Boolean (map (\<lambda>(n, a). if P a then Some (blk n a) else None) autos) =
         map (\<lambda>(n, a). blk n a) (filter (\<lambda>(n, a). P a) autos)"
  using assms by (induction autos) (auto simp: filter_Boolean_def)

lemma heartbeat_daily_blocks_filter:
  "heartbeat_daily_blocks autos =
     map (\<lambda>(n, a). heartbeat_daily_block n a) (filter (\<lambda>(n, a). is_daily (auto_schedule a)) autos)"
  unfolding heartbeat_daily_blocks_def
  by (rule filter_Boolean_map_if) (simp add: heartbeat_daily_block_def)

lemma heartbeat_weekly_blocks_filter:
  "heartbeat_weekly_blocks autos =
     map (\<lambda>(n, a). heartbeat_weekly_block n a) (filter (\<lambda>(n, a). is_weekly (auto_schedule a)) autos)"
  unfolding heartbeat_weekly_blocks_def
  by (rule filter_Boolean_map_if) (simp add: heartbeat_weekly_block_def)

lemma heartbeat_monthly_blocks_filter:
  "heartbeat_monthly_blocks autos =
     map (\<lambda>(n, a). heartbeat_monthly_block n a) (filter (\<lambda>(n, a). is_monthly (auto_schedule a)) autos)"
  unfolding heartbeat_monthly_blocks_def
  by (rule filter_Boolean_map_if) (simp add: heartbeat_monthly_block_def)





text \<open>
  C4, as stated, fails: the sections have no priority among them. An automation scheduled
  \<^verbatim>\<open>daily standup, weekly review\<close> is rendered in the daily section and in the weekly
  section.
\<close>

theorem heartbeat_sections_exclusive_counterexample:
  "heartbeat_daily_blocks
     [(''team_sync'', \<lparr>auto_schedule = ''daily standup, weekly review'', auto_description = None,
                        auto_priority = None, auto_includes = None\<rparr>)]
   = [heartbeat_daily_block ''team_sync''
        \<lparr>auto_schedule = ''daily standup, weekly review'', auto_description = None,
         auto_priority = None, auto_includes = None\<rparr>]
   \<and> heartbeat_weekly_blocks
     [(''team_sync'', \<lparr>auto_schedule = ''daily standup, weekly review'', auto_description = None,
                        auto_priority = None, auto_includes = None\<rparr>)]
   = [heartbeat_weekly_block ''team_sync''
        \<lparr>auto_schedule = ''daily standup, weekly review'', auto_description = None,
         auto_priority = None, auto_includes = None\<rparr>]
   \<and> heartbeat_weekly_section
        \<lparr>tmpl_name = ''Founder Assistant'', tmpl_description = ''Runs the company inbox'',
         tmpl_automations =
           Some [(''team_sync'', \<lparr>auto_schedule = ''daily standup, weekly review'',
                                   auto_description = None, auto_priority = None,
                                   auto_includes = None\<rparr>)],
         tmpl_skills = SkillsArray [], tmpl_demo_scenarios = None,
         tmpl_impact_metrics = None, tmpl_workflows = None\<rparr> \<noteq> []"
proof -
  have d: "is_daily ''daily standup, weekly review''"
    unfolding is_daily_def str_includes_def by code_simp
  have w: "is_weekly ''daily standup, weekly review''"
    unfolding is_weekly_def str_includes_def by code_simp
  show ?thesis
    using d w
    by (simp add: heartbeat_daily_blocks_filter heartbeat_weekly_blocks_filter
          heartbeat_weekly_section_def heartbeat_weekly_block_def)
qed

text \<open>
  C4, amended. Each section applies its own test to every automation, independently of
  the other sections: the daily section renders, in order, exactly the automations whose
  schedule contains \<^verbatim>\<open>daily\<close>, the weekly section those whose schedule contains
  \<^verbatim>\<open>Weekly\<close> or \<^verbatim>\<open>weekly\<close>, the monthly section those whose schedule contains
  \<^verbatim>\<open>Monthly\<close> or \<^verbatim>\<open>monthly\<close>. So an automation is rendered in as many sections as
  its schedule passes tests.
\<close>

theorem heartbeat_sections_independent:
  "heartbeat_daily_blocks autos =
     map (\<lambda>(n, a). heartbeat_daily_block n a)
       (filter (\<lambda>(n, a). str_includes (auto_schedule a) ''daily'') autos)
   \<and> heartbeat_weekly_blocks autos =
     map (\<lambda>(n, a). heartbeat_weekly_block n a)
       (filter (\<lambda>(n, a). str_includes (auto_schedule a) ''Weekly''
                          \<or> str_includes (auto_schedule a) ''weekly'') autos)
   \<and> heartbeat_monthly_blocks autos =
     map (\<lambda>(n, a). heartbeat_monthly_block n a)
       (filter (\<lambda>(n, a). str_includes (auto_schedule a) ''Monthly''
                          \<or> str_includes (auto_schedule a) ''monthly'') autos)
   \<and> heartbeat_daily_section (t\<lparr>tmpl_automations := Some autos\<rparr>) =
       js_join ''\<newline>'' (heartbeat_daily_blocks autos)
   \<and> heartbeat_weekly_section (t\<lparr>tmpl_automations := Some autos\<rparr>) =
       js_join ''\<newline>'' (heartbeat_weekly_blocks autos)
   \<and> heartbeat_monthly_section (t\<lparr>tmpl_automations := Some autos\<rparr>) =
       js_join ''\<newline>'' (heartbeat_monthly_blocks autos)"
  by (simp add: heartbeat_daily_blocks_filter heartbeat_weekly_blocks_filter
        heartbeat_monthly_blocks_filter is_daily_def is_weekly_def is_monthly_def
        heartbeat_daily_section_def heartbeat_weekly_section_def heartbeat_monthly_section_def)


section \<open>AGENTS.md never throws\<close>

lemma map_err_Inr:
  "(\<And>x. x \<in> set xs \<Longrightarrow> f x = Inr (g x)) \<Longrightarrow> map_err f xs = Inr (map g xs)"
  by (induction xs) auto

lemma agents_skills_array:
  "tmpl_skills t = SkillsArray names \<Longrightarrow> agents_skills t = Inr []"
  by (simp add: agents_skills_def skills_entries_def truthy_def Object_keys_def)

lemma agents_skills_entries:
  assumes "tmpl_skills t = SkillsEntries kvs"
  shows "agents_skills t =
    Inr (js_join ''\<newline>''
      (map (\<lambda>skill. ''- **'' @ skill @ ''**: '' @
               or_opt (skill_description (the (map_of kvs skill))) ''Official OpenClaw skill'')
           (map fst kvs)))"
proof -
  have "map_err
          (\<lambda>skill. case entries_get (EntriesObject kvs) skill of
                     None \<Rightarrow> Inl TypeError
                   | Some spec \<Rightarrow>
                       Inr (''- **'' @ skill @ ''**: '' @
                            or_opt (skill_description spec) ''Official OpenClaw skill''))
          (map fst kvs) =
        Inr (map (\<lambda>skill. ''- **'' @ skill @ ''**: '' @
               or_opt (skill_description (the (map_of kvs skill))) ''Official OpenClaw skill'')
           (map fst kvs))"
  proof (rule map_err_Inr)
    fix x assume "x \<in> set (map fst kvs)"
    then obtain v where "map_of kvs x = Some v"
      by (metis map_of_eq_None_iff not_Some_eq set_map)
    then show "(case entries_get (EntriesObject kvs) x of
                     None \<Rightarrow> Inl TypeError
                   | Some spec \<Rightarrow>
                       Inr (''- **'' @ x @ ''**: '' @
                            or_opt (skill_description spec) ''Official OpenClaw skill'')) =
       Inr (''- **'' @ x @ ''**: '' @
               or_opt (skill_description (the (map_of kvs x))) ''Official OpenClaw skill'')"
      by (simp add: entries_get_def obj_get_def)
  qed
  then show ?thesis
    using assms
    by (simp add: agents_skills_def skills_entries_def truthy_def Object_keys_def obj_keys_def)
qed

lemma agents_skills_total: "\<exists>l. agents_skills t = Inr l"
  by (cases "tmpl_skills t") (simp_all add: agents_skills_array agents_skills_entries)

lemma sublist_skip: "sublist x ys \<Longrightarrow> sublist x (p @ ys)"
  by (simp add: sublist_append)

lemma agentsContent_includes:
  "\<exists>content. agentsContent c = Inr content
     \<and> sublist (tmpl_name (cfg_template c)) content
     \<and> sublist (user_type (cfg_user c)) content"
proof -
  obtain l where l: "agents_skills (cfg_template c) = Inr l"
    using agents_skills_total by blast
  show ?thesis
    unfolding agentsContent_def Let_def l sum.case
    apply (rule exI)
    apply (rule conjI, rule refl)
    apply (rule conjI)
     apply (rule sublist_appendI)
    apply (rule sublist_append_rightI | rule sublist_skip)+
    done
qed



section \<open>What one run of the entry point writes\<close>

lemma generateSetup_Inr:
  assumes "agentsContent c = Inr a" "morningBrief c today = Inr m"
  shows "generateSetup c w today f =
    Inr (f\<lparr>fs_dirs := insert (path_join [w, ''templates'']) (insert w (fs_dirs f)),
           fs_files := (fs_files f)
             (path_join [w, ''AGENTS.md''] \<mapsto> [Lit a],
              path_join [w, ''HEARTBEAT.md''] \<mapsto> [Lit (heartbeatContent c)],
              path_join [path_join [w, ''templates''],
                         user_type (cfg_user c) @ ''-automation-template.json'']
                \<mapsto> [Json_indent2 (AutomationExample (automationExample c))],
              path_join [w, ''morning-brief.md''] \<mapsto> [Lit m])\<rparr>)"
  using assms
  by (simp add: generateSetup_def generateOpenClawWorkspace_def generateAgentsFile_def
        generateHeartbeatFile_def generateAutomationTemplates_def generateMorningBrief_def
        ensureDir_def writeFile_def Let_def)

lemma generateSetup_Inl:
  "morningBrief c today = Inl e \<Longrightarrow> generateSetup c w today f = Inl e"
  using agentsContent_includes [of c]
  by (auto simp add: generateSetup_def generateOpenClawWorkspace_def generateAgentsFile_def
        generateHeartbeatFile_def generateAutomationTemplates_def generateMorningBrief_def
        Let_def)


lemma morningBrief_Inl:
  "tmpl_automations (cfg_template c) = None \<Longrightarrow> morningBrief c today = Inl TypeError"
  by (simp add: morningBrief_def)

lemma upd4_same:
  "p \<in> {k1, k2, k3, k4} \<Longrightarrow>
   (F(k1 \<mapsto> v1, k2 \<mapsto> v2, k3 \<mapsto> v3, k4 \<mapsto> v4)) p =
   (G(k1 \<mapsto> v1, k2 \<mapsto> v2, k3 \<mapsto> v3, k4 \<mapsto> v4)) p"
  by (auto simp add: fun_upd_def)

lemma insert_twice:
  "insert t (insert w (insert t (insert w D))) = insert t (insert w D)"
  by auto

lemma example_run:
  "\<exists>a m. agentsContent (example_config ty sk) = Inr a
     \<and> morningBrief (example_config ty sk) today = Inr m"
  using agentsContent_includes [of "example_config ty sk"]
  by (auto simp add: morningBrief_def example_config_def generateConfiguration_def
        example_template_def)

text \<open>
  C9. For every configuration, \<^verbatim>\<open>generateAgentsFile\<close> writes AGENTS.md, and the text
  written contains the template's name and the role \<^verbatim>\<open>user.type\<close>.
\<close>

theorem agents_file_contains_name_and_role:
  "\<exists>content. generateAgentsFile config workspacePath f =
       Inr (writeFile (path_join [workspacePath, ''AGENTS.md'']) [Lit content] f)
     \<and> str_includes content (tmpl_name (cfg_template config))
     \<and> str_includes content (user_type (cfg_user config))"
  using agentsContent_includes [of config]
  by (auto simp add: generateAgentsFile_def str_includes_def)

text \<open>
  C8. A run of \<^verbatim>\<open>generateSetup\<close> that completes leaves a file system on which a second
  run, with the same configuration and the same clock reading, completes and changes
  nothing. The four files it writes have the same content whatever the disk held before.
\<close>

theorem generateSetup_idempotent:
  assumes "generateSetup config w today f = Inr f'"
  shows "generateSetup config w today f' = Inr f'
    \<and> (\<forall>g g'. generateSetup config w today g = Inr g' \<longrightarrow>
          (\<forall>p \<in> {path_join [w, ''AGENTS.md''], path_join [w, ''HEARTBEAT.md''],
                 path_join [path_join [w, ''templates''],
                            user_type (cfg_user config) @ ''-automation-template.json''],
                 path_join [w, ''morning-brief.md'']}.
             fs_files g' p = fs_files f' p))"
proof -
  obtain a where a: "agentsContent config = Inr a"
    using agentsContent_includes by blast
  obtain m where m: "morningBrief config today = Inr m"
    using assms generateSetup_Inl [of config today _ w f]
    by (cases "morningBrief config today") auto
  have f': "f' = f\<lparr>fs_dirs := insert (path_join [w, ''templates'']) (insert w (fs_dirs f)),
           fs_files := (fs_files f)
             (path_join [w, ''AGENTS.md''] \<mapsto> [Lit a],
              path_join [w, ''HEARTBEAT.md''] \<mapsto> [Lit (heartbeatContent config)],
              path_join [path_join [w, ''templates''],
                         user_type (cfg_user config) @ ''-automation-template.json'']
                \<mapsto> [Json_indent2 (AutomationExample (automationExample config))],
              path_join [w, ''morning-brief.md''] \<mapsto> [Lit m])\<rparr>"
    using assms generateSetup_Inr [OF a m, of w f] by simp
  have again: "generateSetup config w today f' = Inr f'"
    unfolding generateSetup_Inr [OF a m] f' by (simp add: insert_twice)
  have same: "fs_files g' p = fs_files f' p"
    if "generateSetup config w today g = Inr g'"
      and "p \<in> {path_join [w, ''AGENTS.md''], path_join [w, ''HEARTBEAT.md''],
                 path_join [path_join [w, ''templates''],
                            user_type (cfg_user config) @ ''-automation-template.json''],
                 path_join [w, ''morning-brief.md'']}" for g g' p
  proof -
    have "g' = g\<lparr>fs_dirs := insert (path_join [w, ''templates'']) (insert w (fs_dirs g)),
           fs_files := (fs_files g)
             (path_join [w, ''AGENTS.md''] \<mapsto> [Lit a],
              path_join [w, ''HEARTBEAT.md''] \<mapsto> [Lit (heartbeatContent config)],
              path_join [path_join [w, ''templates''],
                         user_type (cfg_user config) @ ''-automation-template.json'']
                \<mapsto> [Json_indent2 (AutomationExample (automationExample config))],
              path_join [w, ''morning-brief.md''] \<mapsto> [Lit m])\<rparr>"
      using that(1) generateSetup_Inr [OF a m, of w g] by simp
    then have G: "fs_files g' = (fs_files g)
             (path_join [w, ''AGENTS.md''] \<mapsto> [Lit a],
              path_join [w, ''HEARTBEAT.md''] \<mapsto> [Lit (heartbeatContent config)],
              path_join [path_join [w, ''templates''],
                         user_type (cfg_user config) @ ''-automation-template.json'']
                \<mapsto> [Json_indent2 (AutomationExample (automationExample config))],
              path_join [w, ''morning-brief.md''] \<mapsto> [Lit m])"
      by simp
    have F: "fs_files f' = (fs_files f)
             (path_join [w, ''AGENTS.md''] \<mapsto> [Lit a],
              path_join [w, ''HEARTBEAT.md''] \<mapsto> [Lit (heartbeatContent config)],
              path_join [path_join [w, ''templates''],
                         user_type (cfg_user config) @ ''-automation-template.json'']
                \<mapsto> [Json_indent2 (AutomationExample (automationExample config))],
              path_join [w, ''morning-brief.md''] \<mapsto> [Lit m])"
      using f' by simp
    show ?thesis
      unfolding F G by (rule upd4_same [OF that(2)])
  qed
  show ?thesis
  proof (intro conjI allI impI ballI)
    show "generateSetup config w today f' = Inr f'" by (rule again)
  next
    fix g g' p
    assume "generateSetup config w today g = Inr g'"
      and "p \<in> {path_join [w, ''AGENTS.md''], path_join [w, ''HEARTBEAT.md''],
                 path_join [path_join [w, ''templates''],
                            user_type (cfg_user config) @ ''-automation-template.json''],
                 path_join [w, ''morning-brief.md'']}"
    then show "fs_files g' p = fs_files f' p" by (rule same)
  qed
qed

theorem generateSetup_idempotent_witness:
  "\<not> isl (generateSetup (example_config ''founder'' (SkillsArray [''email'', ''calendar'']))
             ''/home/user/clawd'' ''1/1/2026'' empty_fs)
   \<and> generateSetup (example_config ''founder'' (SkillsArray [''email'', ''calendar'']))
        ''/home/user/clawd'' ''1/1/2026''
        (projr (generateSetup (example_config ''founder'' (SkillsArray [''email'', ''calendar'']))
                  ''/home/user/clawd'' ''1/1/2026'' empty_fs))
     = generateSetup (example_config ''founder'' (SkillsArray [''email'', ''calendar'']))
         ''/home/user/clawd'' ''1/1/2026'' empty_fs"
proof -
  let ?c = "example_config ''founder'' (SkillsArray [''email'', ''calendar''])"
  obtain a m where "agentsContent ?c = Inr a" "morningBrief ?c ''1/1/2026'' = Inr m"
    using example_run by blast
  then obtain f' where run: "generateSetup ?c ''/home/user/clawd'' ''1/1/2026'' empty_fs = Inr f'"
    using generateSetup_Inr by blast
  from generateSetup_idempotent [OF run]
  have "generateSetup ?c ''/home/user/clawd'' ''1/1/2026'' f' = Inr f'"
    by (rule conjunct1)
  with run show ?thesis by simp
qed





section \<open>Role branching of the automation definitions\<close>




section \<open>Absent optional fields\<close>












section \<open>The two shapes of skills in the renderers\<close>









text \<open>
  On an array, \<^verbatim>\<open>skills.entries\<close> is the inherited method, which is truthy and has no own
  enumerable keys. The renderers that branch on it therefore take the branch written for
  the object shape and find no skill names.
\<close>

lemma array_shape_in_branching_renderers:
  assumes "tmpl_skills (cfg_template c) = SkillsArray names"
  shows "agents_skills (cfg_template c) = Inr []"
    and "ae_skills_needed (automationExample c) = NeededNames []"
    and "configureSkillsForRole c w f =
          Inr (writeFile (path_join [w, ''openclaw-skills-config.json''])
                 [Lit (''\<newline>'' @ ''# Add this to your ~/.openclaw/openclaw.json file:\<newline>''),
                  Json_indent2 (SkillsConfig []),
                  Lit (''\<newline>'' @ ''\<newline>'' @
                       ''# Or run: openclaw config patch --raw '' @ [CHR 0x27]),
                  Json (SkillsConfig []),
                  Lit ([CHR 0x27] @ ''\<newline>'')] f)"
  using assms
  by (simp_all add: agents_skills_array automationExample_def configureSkillsForRole_def
        skills_entries_def truthy_def Object_keys_def Let_def)




end
